theory Spec2Isabelle
  imports Complex_Main
begin

section \<open>Arrays\<close>

text \<open>
  The notebooks hold their data in NumPy arrays. An array is a shape together with
  its elements in C order (row-major: the last index varies fastest), which is the
  layout NumPy's \<^verbatim>\<open>reshape\<close> and \<^verbatim>\<open>values\<close> use by default.
\<close>

datatype error = ValueError | IndexError | KeyError | ParserError | EmptyDataError

record 'a ndarray =
  shape :: "nat list"
  data :: "'a list"

definition wf_array :: "'a ndarray \<Rightarrow> bool" where
  "wf_array a = (length (data a) = prod_list (shape a))"

text \<open>The flat position of a multi-index, and the multi-index of a flat position.\<close>

fun ravel :: "nat list \<Rightarrow> nat list \<Rightarrow> nat" where
  "ravel (d # ds) (i # is) = i * prod_list ds + ravel ds is"
| "ravel _ _ = 0"

fun unravel :: "nat list \<Rightarrow> nat \<Rightarrow> nat list" where
  "unravel [] k = []"
| "unravel (d # ds) k = (k div prod_list ds) # unravel ds (k mod prod_list ds)"

fun in_bounds :: "nat list \<Rightarrow> nat list \<Rightarrow> bool" where
  "in_bounds [] [] = True"
| "in_bounds (d # ds) (i # is) = (i < d \<and> in_bounds ds is)"
| "in_bounds _ _ = False"

text \<open>Reading inside a computation whose indices are in range by construction.\<close>

definition elem :: "'a ndarray \<Rightarrow> nat list \<Rightarrow> 'a" where
  "elem a idx = data a ! ravel (shape a) idx"

text \<open>\<^verbatim>\<open>a[i, j, ...]\<close> with a full index: out of range raises IndexError.\<close>

definition item :: "'a ndarray \<Rightarrow> nat list \<Rightarrow> error + 'a" where
  "item a idx = (if in_bounds (shape a) idx then Inr (elem a idx) else Inl IndexError)"

text \<open>\<^verbatim>\<open>a[i]\<close>: the sub-array at position \<open>i\<close> of the first axis.\<close>

definition getitem :: "'a ndarray \<Rightarrow> nat \<Rightarrow> error + 'a ndarray" where
  "getitem a i =
     (case shape a of
        [] \<Rightarrow> Inl IndexError
      | d # ds \<Rightarrow>
          if i < d
          then Inr \<lparr>shape = ds, data = take (prod_list ds) (drop (i * prod_list ds) (data a))\<rparr>
          else Inl IndexError)"

text \<open>
  \<^verbatim>\<open>a.reshape(newshape)\<close>: the same buffer under a new shape; a new shape of
  another size raises ValueError.
\<close>

definition reshape :: "'a ndarray \<Rightarrow> nat list \<Rightarrow> error + 'a ndarray" where
  "reshape a newshape =
     (if prod_list newshape = prod_list (shape a)
      then Inr \<lparr>shape = newshape, data = data a\<rparr>
      else Inl ValueError)"

text \<open>An array given by its element at every multi-index.\<close>

definition fromfunction :: "nat list \<Rightarrow> (nat list \<Rightarrow> 'a) \<Rightarrow> 'a ndarray" where
  "fromfunction s f = \<lparr>shape = s, data = map (\<lambda>k. f (unravel s k)) [0..<prod_list s]\<rparr>"

text \<open>\<^verbatim>\<open>a / 255.0\<close>: element-wise true division of an integer array.\<close>

definition true_divide :: "int ndarray \<Rightarrow> real \<Rightarrow> real ndarray" where
  "true_divide a d = \<lparr>shape = shape a, data = map (\<lambda>v. real_of_int v / d) (data a)\<rparr>"

section \<open>Data preparation\<close>

text \<open>
  A table (a pandas \<^verbatim>\<open>DataFrame\<close>) is rectangular; its columns are labelled
  \<open>0, 1, ...\<close>: column 0 is the label, the others the pixels.
\<close>

record 'a dataframe =
  ncols :: nat
  rows :: "'a list list"

definition wf_df :: "'a dataframe \<Rightarrow> bool" where
  "wf_df df = list_all (\<lambda>r. length r = ncols df) (rows df)"

text \<open>
  \<^verbatim>\<open>pd.read_csv(path, header=None)\<close>. The file is the list of its lines, a line the
  list of its fields. Blank lines are skipped, and a file with no line left is
  refused. The first line fixes the number of columns. A later line with more fields
  is refused by the parser; one with fewer fields is filled up with missing values
  (NaN, here \<open>None\<close>).
\<close>

definition pad :: "nat \<Rightarrow> int list \<Rightarrow> int option list" where
  "pad n r = map Some r @ replicate (n - length r) None"

definition read_csv :: "int list list \<Rightarrow> error + int option dataframe" where
  "read_csv file =
     (case filter (\<lambda>r. r \<noteq> []) file of
        [] \<Rightarrow> Inl EmptyDataError
      | first # rest \<Rightarrow>
          if list_ex (\<lambda>r. length first < length r) rest then Inl ParserError
          else Inr \<lparr>ncols = length first, rows = map (pad (length first)) (first # rest)\<rparr>)"

text \<open>\<^verbatim>\<open>df.loc[:, c:]\<close>: the columns from label \<open>c\<close> on.\<close>

definition loc_cols :: "nat \<Rightarrow> 'a dataframe \<Rightarrow> 'a dataframe" where
  "loc_cols c df = \<lparr>ncols = ncols df - c, rows = map (drop c) (rows df)\<rparr>"

text \<open>\<^verbatim>\<open>df.values\<close>: the table as a two-dimensional array.\<close>

definition values_df :: "'a dataframe \<Rightarrow> 'a ndarray" where
  "values_df df = \<lparr>shape = [length (rows df), ncols df], data = concat (rows df)\<rparr>"

text \<open>\<^verbatim>\<open>df[c].values\<close>: one column; a missing label raises KeyError.\<close>

definition column :: "nat \<Rightarrow> 'a dataframe \<Rightarrow> error + 'a list" where
  "column c df = (if c < ncols df then Inr (map (\<lambda>r. r ! c) (rows df)) else Inl KeyError)"

text \<open>
  \<^verbatim>\<open>a / 255.0\<close> on an array that may hold missing values: a missing value stays
  missing, any other element is divided as \<open>true_divide\<close> does.
\<close>

definition true_divide_nan :: "int option ndarray \<Rightarrow> real \<Rightarrow> real option ndarray" where
  "true_divide_nan a d =
     \<lparr>shape = shape a, data = map (map_option (\<lambda>v. real_of_int v / d)) (data a)\<rparr>"

text \<open>
  The preparation cells of the training notebook, in their order (the test set goes
  through the same cells):
  \<^verbatim>\<open>
  df = pd.read_csv('Resources/mnist_train.csv', header=None)
  features = df.loc[:, 1:].values
  features = features.reshape((features.shape[0], 28, 28, 1))
  features = features / 255.0
  labels = df[0].values
  \<close>
\<close>

definition reshape_features :: "'a dataframe \<Rightarrow> error + 'a ndarray" where
  "reshape_features df =
     (let features = values_df (loc_cols 1 df)
      in reshape features [hd (shape features), 28, 28, 1])"

definition prepare :: "int list list \<Rightarrow> error + (real option ndarray \<times> int option list)" where
  "prepare file =
     (case read_csv file of
        Inl e \<Rightarrow> Inl e
      | Inr df \<Rightarrow>
          (case reshape_features df of
             Inl e \<Rightarrow> Inl e
           | Inr features \<Rightarrow>
               (case column 0 df of
                  Inl e \<Rightarrow> Inl e
                | Inr labels \<Rightarrow> Inr (true_divide_nan features 255, labels))))"

section \<open>The model\<close>

text \<open>
  A Keras \<^verbatim>\<open>Sequential\<close> model is the list of its layers, the weights of each
  layer, and, once compiled, the optimizer with its state. Numbers are real: the
  rounding of floating point is left out.
\<close>

datatype activation = Linear | Relu | Softmax

datatype layer =
    Conv2D nat "nat \<times> nat" "nat list option"
  | MaxPooling2D "nat \<times> nat" nat
  | Flatten
  | Dense nat activation
  | Dropout real

record layer_weights =
  kernel :: "nat list \<Rightarrow> real"
  bias :: "nat \<Rightarrow> real"

record optimizer_state =
  opt_name :: string
  iterations :: nat
  slots :: "nat \<Rightarrow> real"

record sequential =
  layers :: "layer list"
  weights :: "nat \<Rightarrow> layer_weights"
  optimizer :: "optimizer_state option"
  loss :: "string option"
  metrics :: "string list"

text \<open>
  \<^verbatim>\<open>tf.keras.models.Sequential()\<close>; \<open>init\<close> is the random initial value of the
  weights that a layer gets when it is built.
\<close>

definition Sequential :: "(nat \<Rightarrow> layer_weights) \<Rightarrow> sequential" where
  "Sequential init = \<lparr>layers = [], weights = init, optimizer = None, loss = None, metrics = []\<rparr>"

definition add :: "sequential \<Rightarrow> layer \<Rightarrow> sequential" where
  "add model l = model\<lparr>layers := layers model @ [l]\<rparr>"

definition compile :: "sequential \<Rightarrow> string \<Rightarrow> string \<Rightarrow> string list \<Rightarrow> sequential" where
  "compile model opt lss ms =
     model\<lparr>optimizer := Some \<lparr>opt_name = opt, iterations = 0, slots = (\<lambda>_. 0)\<rparr>,
           loss := Some lss, metrics := ms\<rparr>"

text \<open>
  The cells that build and compile the model:
  \<^verbatim>\<open>
  model = tf.keras.models.Sequential()
  model.add(tf.keras.layers.Conv2D(filters=32, kernel_size=(3, 3), input_shape=(28, 28, 1)))
  model.add(tf.keras.layers.MaxPooling2D(pool_size=(2, 2), strides=2))
  model.add(tf.keras.layers.Flatten())
  model.add(tf.keras.layers.Dense(units=64, activation=tf.nn.relu))
  model.add(tf.keras.layers.Dropout(rate=0.2))
  model.add(tf.keras.layers.Dense(10, activation=tf.nn.softmax))
  model.compile(optimizer='adam', loss='sparse_categorical_crossentropy', metrics=['accuracy'])
  \<close>
\<close>

definition build_model :: "(nat \<Rightarrow> layer_weights) \<Rightarrow> sequential" where
  "build_model init =
     (let model = Sequential init;
          model = add model (Conv2D 32 (3, 3) (Some [28, 28, 1]));
          model = add model (MaxPooling2D (2, 2) 2);
          model = add model Flatten;
          model = add model (Dense 64 Relu);
          model = add model (Dropout (2 / 10));
          model = add model (Dense 10 Softmax)
      in compile model ''adam'' ''sparse_categorical_crossentropy'' [''accuracy''])"

text \<open>
  \<^verbatim>\<open>model.fit(train_features, train_labels, epochs=3)\<close> replaces the weights and
  the optimizer's state. The values it reaches depend on the data and on random
  choices; they are the parameters \<open>w\<close>, \<open>n\<close> and \<open>sl\<close>.
\<close>

definition fit_result ::
  "(nat \<Rightarrow> layer_weights) \<Rightarrow> nat \<Rightarrow> (nat \<Rightarrow> real) \<Rightarrow> sequential \<Rightarrow> sequential" where
  "fit_result w n sl model =
     model\<lparr>weights := w,
           optimizer := map_option (\<lambda>opt. opt\<lparr>iterations := n, slots := sl\<rparr>) (optimizer model)\<rparr>"

subsection \<open>What a layer computes\<close>

text \<open>
  Layers are applied to one sample at a time: a grid of shape \<open>[height, width, channels]\<close>
  up to the flattener, a vector after it.
\<close>

definition max_list :: "real list \<Rightarrow> real" where
  "max_list xs = fold max (tl xs) (hd xs)"

definition relu :: "real \<Rightarrow> real" where
  "relu v = max 0 v"

text \<open>\<^verbatim>\<open>tf.nn.softmax\<close> works along the last axis.\<close>

definition softmax :: "real ndarray \<Rightarrow> real ndarray" where
  "softmax z =
     fromfunction (shape z)
       (\<lambda>idx. exp (elem z idx) /
               sum_list [exp (elem z (butlast idx @ [k])). k \<leftarrow> [0..<last (shape z)]])"

fun activate :: "activation \<Rightarrow> real ndarray \<Rightarrow> real ndarray" where
  "activate Linear z = z"
| "activate Relu z = \<lparr>shape = shape z, data = map relu (data z)\<rparr>"
| "activate Softmax z = softmax z"

text \<open>
  \<open>call l w training keep x\<close> is the output of layer \<open>l\<close> with weights \<open>w\<close> on the
  input \<open>x\<close>. \<open>training\<close> tells a training pass from inference, and \<open>keep\<close> is the
  random choice of the units that a dropout layer lets through in this pass.
  Convolution and pooling use the default padding (\<^verbatim>\<open>valid\<close>): windows lie inside
  the grid, and a grid smaller than one window is an error.
\<close>

fun call ::
  "layer \<Rightarrow> layer_weights \<Rightarrow> bool \<Rightarrow> (nat \<Rightarrow> bool) \<Rightarrow> real ndarray \<Rightarrow> error + real ndarray"
where
  "call (Conv2D filters (kh, kw) spec) w training keep x =
     (case shape x of
        [h, wd, c] \<Rightarrow>
          if h < kh \<or> wd < kw then Inl ValueError
          else Inr (fromfunction [h - kh + 1, wd - kw + 1, filters]
                 (\<lambda>idx. sum_list [elem x [idx ! 0 + a, idx ! 1 + b, ch] *
                                      kernel w [a, b, ch, idx ! 2].
                                    a \<leftarrow> [0..<kh], b \<leftarrow> [0..<kw], ch \<leftarrow> [0..<c]]
                         + bias w (idx ! 2)))
      | _ \<Rightarrow> Inl ValueError)"
| "call (MaxPooling2D (ph, pw) s) w training keep x =
     (case shape x of
        [h, wd, c] \<Rightarrow>
          if h < ph \<or> wd < pw \<or> ph = 0 \<or> pw = 0 \<or> s = 0 then Inl ValueError
          else Inr (fromfunction [(h - ph) div s + 1, (wd - pw) div s + 1, c]
                 (\<lambda>idx. max_list [elem x [idx ! 0 * s + a, idx ! 1 * s + b, idx ! 2].
                                    a \<leftarrow> [0..<ph], b \<leftarrow> [0..<pw]]))
      | _ \<Rightarrow> Inl ValueError)"
| "call Flatten w training keep x = Inr \<lparr>shape = [prod_list (shape x)], data = data x\<rparr>"
| "call (Dense units act) w training keep x =
     (if shape x = [] then Inl ValueError
      else Inr (activate act
             (fromfunction (butlast (shape x) @ [units])
                (\<lambda>idx. sum_list [elem x (butlast idx @ [k]) * kernel w [k, last idx].
                                   k \<leftarrow> [0..<last (shape x)]]
                        + bias w (last idx)))))"
| "call (Dropout rate) w training keep x =
     (if training
      then Inr \<lparr>shape = shape x,
                data = map (\<lambda>(k, v). if keep k then v / (1 - rate) else 0)
                         (enumerate 0 (data x))\<rparr>
      else Inr x)"

subsection \<open>Running the model\<close>

fun forward ::
  "layer list \<Rightarrow> (nat \<Rightarrow> layer_weights) \<Rightarrow> nat \<Rightarrow> bool \<Rightarrow> (nat \<Rightarrow> bool) \<Rightarrow>
   real ndarray \<Rightarrow> error + real ndarray"
where
  "forward [] ws k training keep x = Inr x"
| "forward (l # ls) ws k training keep x =
     (case call l (ws k) training keep x of
        Inl e \<Rightarrow> Inl e
      | Inr y \<Rightarrow> forward ls ws (Suc k) training keep y)"

text \<open>The input shape that the first layer declares, if it declares one.\<close>

definition input_spec :: "layer list \<Rightarrow> nat list option" where
  "input_spec ls = (case ls of Conv2D filters ks spec # _ \<Rightarrow> spec | _ \<Rightarrow> None)"

fun sequence :: "(error + 'a) list \<Rightarrow> error + 'a list" where
  "sequence [] = Inr []"
| "sequence (r # rs) =
     (case r of
        Inl e \<Rightarrow> Inl e
      | Inr v \<Rightarrow> (case sequence rs of Inl e \<Rightarrow> Inl e | Inr vs \<Rightarrow> Inr (v # vs)))"

definition stack :: "'a ndarray list \<Rightarrow> 'a ndarray" where
  "stack ys =
     \<lparr>shape = length ys # (case ys of [] \<Rightarrow> [] | y # _ \<Rightarrow> shape y),
      data = concat (map data ys)\<rparr>"

text \<open>
  \<^verbatim>\<open>model.predict(x)\<close>: \<open>x\<close> is a batch, its first axis counts the samples. Each
  sample goes through the layers outside training; the results are stacked. A
  sample of another shape than the declared one is refused.
\<close>

definition predict :: "sequential \<Rightarrow> (nat \<Rightarrow> bool) \<Rightarrow> real ndarray \<Rightarrow> error + real ndarray" where
  "predict model keep x =
     (case shape x of
        [] \<Rightarrow> Inl ValueError
      | b # s \<Rightarrow>
          if input_spec (layers model) = None \<or> input_spec (layers model) = Some s
          then (case sequence
                       (map (\<lambda>i. case getitem x i of
                                   Inl e \<Rightarrow> Inl e
                                 | Inr xi \<Rightarrow> forward (layers model) (weights model) 0 False keep xi)
                          [0..<b]) of
                  Inl e \<Rightarrow> Inl e
                | Inr ys \<Rightarrow> Inr (stack ys))
          else Inl ValueError)"

subsection \<open>Saving the model\<close>

text \<open>
  A checkpoint holds the layer configuration, the weights and, if asked for, the
  optimizer with its state. The file system maps a path to the checkpoint stored
  there.
\<close>

record checkpoint =
  ck_layers :: "layer list"
  ck_weights :: "nat \<Rightarrow> layer_weights"
  ck_optimizer :: "optimizer_state option"

type_synonym filesystem = "string \<rightharpoonup> checkpoint"

text \<open>
  \<^verbatim>\<open>model.save(filepath, overwrite, include_optimizer)\<close>. When the file exists and
  \<open>overwrite\<close> is off, Keras asks at the prompt whether to go on; \<open>answer\<close> is the
  reply. The result tells whether the question was asked, and the new file system.
\<close>

definition save ::
  "sequential \<Rightarrow> string \<Rightarrow> bool \<Rightarrow> bool \<Rightarrow> bool \<Rightarrow> filesystem \<Rightarrow> bool \<times> filesystem" where
  "save model filepath overwrite include_optimizer answer fs =
     (let ck = \<lparr>ck_layers = layers model, ck_weights = weights model,
                ck_optimizer = (if include_optimizer then optimizer model else None)\<rparr>
      in if \<not> overwrite \<and> fs filepath \<noteq> None
         then (True, if answer then fs(filepath \<mapsto> ck) else fs)
         else (False, fs(filepath \<mapsto> ck)))"

text \<open>
  The saving cell:
  \<^verbatim>\<open>model.save('mnist-model.h5', overwrite=True, include_optimizer=True)\<close>
\<close>

definition save_cell :: "sequential \<Rightarrow> bool \<Rightarrow> filesystem \<Rightarrow> bool \<times> filesystem" where
  "save_cell model answer fs = save model ''mnist-model.h5'' True True answer fs"

subsection \<open>Sample values\<close>

definition zero_weights :: "nat \<Rightarrow> layer_weights" where
  "zero_weights k = \<lparr>kernel = (\<lambda>_. 0), bias = (\<lambda>_. 0)\<rparr>"

definition no_slots :: "nat \<Rightarrow> real" where
  "no_slots k = 0"

definition old_checkpoint :: checkpoint where
  "old_checkpoint = \<lparr>ck_layers = [], ck_weights = zero_weights, ck_optimizer = None\<rparr>"

definition first_only :: "nat \<Rightarrow> bool" where
  "first_only k = (k = 0)"

text \<open>A file of two lines: a full one, and one with a label and two pixels only.\<close>

definition short_row_file :: "int list list" where
  "short_row_file = [7 # replicate 784 0, [3, 1, 2]]"

definition grid_3x3 :: "real ndarray" where
  "grid_3x3 = \<lparr>shape = [3, 3, 1], data = [1, 2, 3, 4, 5, 6, 7, 8, 9]\<rparr>"

definition grid_1x1 :: "real ndarray" where
  "grid_1x1 = \<lparr>shape = [1, 1, 1], data = [7]\<rparr>"

definition blank_batch :: "real ndarray" where
  "blank_batch = \<lparr>shape = [1, 28, 28, 1], data = replicate 784 0\<rparr>"

section \<open>Facts about arrays\<close>

lemma ravel_less: "in_bounds s idx \<Longrightarrow> ravel s idx < prod_list s"
proof (induction s idx rule: in_bounds.induct)
  case (2 d ds i "is")
  then have lt: "ravel ds is < prod_list ds" and i: "i < d" by simp_all
  have "i * prod_list ds + ravel ds is < i * prod_list ds + prod_list ds"
    using lt by simp
  also have "\<dots> = Suc i * prod_list ds" by simp
  also have "\<dots> \<le> d * prod_list ds"
    using i by (intro mult_le_mono1) simp
  finally show ?case by simp
qed simp_all

lemma unravel_ravel: "in_bounds s idx \<Longrightarrow> unravel s (ravel s idx) = idx"
proof (induction s idx rule: in_bounds.induct)
  case (2 d ds i "is")
  then have lt: "ravel ds is < prod_list ds" and ih: "unravel ds (ravel ds is) = is"
    by (simp_all add: ravel_less)
  from lt show ?case by (simp add: ih)
qed simp_all

lemma elem_fromfunction: "in_bounds s idx \<Longrightarrow> elem (fromfunction s f) idx = f idx"
  by (simp add: elem_def fromfunction_def ravel_less unravel_ravel)

lemma item_fromfunction: "in_bounds s idx \<Longrightarrow> item (fromfunction s f) idx = Inr (f idx)"
  by (simp add: item_def elem_fromfunction) (simp add: fromfunction_def)

lemma shape_fromfunction: "shape (fromfunction s f) = s"
  by (simp add: fromfunction_def)

lemma wf_fromfunction: "wf_array (fromfunction s f)"
  by (simp add: wf_array_def fromfunction_def)

lemma length_concat_uniform:
  "list_all (\<lambda>r. length r = m) xss \<Longrightarrow> length (concat xss) = length xss * m"
  by (induction xss) simp_all

lemma take_drop_concat_uniform:
  "list_all (\<lambda>r. length r = m) xss \<Longrightarrow> i < length xss \<Longrightarrow>
   take m (drop (i * m) (concat xss)) = xss ! i"
proof (induction xss arbitrary: i)
  case Nil
  then show ?case by simp
next
  case (Cons xs xss)
  show ?case
  proof (cases i)
    case 0
    with Cons.prems show ?thesis by simp
  next
    case (Suc j)
    with Cons show ?thesis by simp
  qed
qed

lemma nth_concat_uniform:
  assumes "list_all (\<lambda>r. length r = m) xss" "i < length xss" "j < m"
  shows "concat xss ! (i * m + j) = xss ! i ! j"
proof -
  have len: "length (concat xss) = length xss * m"
    using assms(1) by (rule length_concat_uniform)
  have "Suc i * m \<le> length xss * m"
    using assms(2) by (intro mult_le_mono1) simp
  then have bound: "i * m + j < length (concat xss)"
    using assms(3) len by simp
  have "xss ! i ! j = take m (drop (i * m) (concat xss)) ! j"
    using assms(1,2) by (simp add: take_drop_concat_uniform)
  also have "\<dots> = concat xss ! (i * m + j)"
    using assms(3) bound by simp
  finally show ?thesis by simp
qed


lemma pixels_uniform:
  assumes "wf_df df" "ncols df = 785"
  shows "list_all (\<lambda>r. length r = 784) (map (drop 1) (rows df))"
  using assms by (simp add: wf_df_def list_all_iff)

section \<open>Data preparation: the claims\<close>

text \<open>
  Claim C1. When every row carries 784 pixels (785 columns with the label), the
  reshape succeeds and gives one tensor of shape \<open>28 \<times> 28 \<times> 1\<close> per row. The tensor
  of row \<open>i\<close> holds exactly the pixel sequence of that row, in the same order, and
  its cell \<open>(r, c, 0)\<close> is pixel \<open>28 r + c\<close>: the fill is row-major, nothing is lost,
  repeated or moved.
\<close>

theorem reshape_features_row_major:
  assumes "wf_df df" and "ncols df = 785"
  shows "\<exists>t. reshape_features df = Inr t
           \<and> shape t = [length (rows df), 28, 28, 1]
           \<and> data t = concat (map (drop 1) (rows df))
           \<and> (\<forall>i<length (rows df).
                 getitem t i = Inr \<lparr>shape = [28, 28, 1], data = drop 1 (rows df ! i)\<rparr>
               \<and> (\<forall>r<28. \<forall>c<28.
                     item t [i, r, c, 0] = Inr (drop 1 (rows df ! i) ! (28 * r + c))))"
proof -
  define px where "px = map (drop 1) (rows df)"
  define t where "t = \<lparr>shape = [length (rows df), 28, 28, 1], data = concat px\<rparr>"
  have uni: "list_all (\<lambda>r. length r = 784) px"
    unfolding px_def using assms by (rule pixels_uniform)
  have run: "reshape_features df = Inr t"
    using assms(2)
    by (simp add: reshape_features_def reshape_def values_df_def loc_cols_def t_def px_def)
  have sub: "getitem t i = Inr \<lparr>shape = [28, 28, 1], data = drop 1 (rows df ! i)\<rparr>"
    if "i < length (rows df)" for i
  proof -
    have "take 784 (drop (i * 784) (concat px)) = px ! i"
      using uni that by (intro take_drop_concat_uniform) (simp_all add: px_def)
    with that show ?thesis by (simp add: getitem_def t_def px_def)
  qed
  have cell: "item t [i, r, c, 0] = Inr (drop 1 (rows df ! i) ! (28 * r + c))"
    if "i < length (rows df)" "r < 28" "c < 28" for i r c
  proof -
    have j: "28 * r + c < 784" using that by simp
    have "concat px ! (i * 784 + (28 * r + c)) = px ! i ! (28 * r + c)"
      using uni that(1) j by (intro nth_concat_uniform) (simp_all add: px_def)
    moreover have "elem t [i, r, c, 0] = concat px ! (i * 784 + (28 * r + c))"
      by (simp add: elem_def t_def mult.commute)
    moreover have "in_bounds (shape t) [i, r, c, 0]"
      using that by (simp add: t_def)
    moreover have "px ! i = drop 1 (rows df ! i)"
      using that(1) by (simp add: px_def)
    ultimately show ?thesis
      by (simp add: item_def)
  qed
  show ?thesis
    using run sub cell by (intro exI [of _ t]) (simp add: t_def px_def)
qed

theorem reshape_features_row_major_witness:
  "wf_df \<lparr>ncols = 785, rows = [5 # map int [0..<784]]\<rparr>
   \<and> ncols \<lparr>ncols = 785, rows = [5 # map int [0..<784]]\<rparr> = 785
   \<and> (\<exists>t. reshape_features \<lparr>ncols = 785, rows = [5 # map int [0..<784]]\<rparr> = Inr t
         \<and> shape t = [1, 28, 28, 1]
         \<and> data t = map int [0..<784]
         \<and> getitem t 0 = Inr \<lparr>shape = [28, 28, 1], data = map int [0..<784]\<rparr>
         \<and> item t [0, 1, 2, 0] = Inr 30)"
proof -
  let ?df = "\<lparr>ncols = 785, rows = [5 # map int [0..<784]]\<rparr>"
  have h1: "wf_df ?df" by (simp add: wf_df_def)
  have h2: "ncols ?df = 785" by simp
  from reshape_features_row_major [OF h1 h2] obtain t where
    t: "reshape_features ?df = Inr t" "shape t = [length (rows ?df), 28, 28, 1]"
       "data t = concat (map (drop 1) (rows ?df))"
       "\<forall>i<length (rows ?df).
                 getitem t i = Inr \<lparr>shape = [28, 28, 1], data = drop 1 (rows ?df ! i)\<rparr>
               \<and> (\<forall>r<28. \<forall>c<28.
                     item t [i, r, c, 0] = Inr (drop 1 (rows ?df ! i) ! (28 * r + c)))"
    by blast
  have g: "getitem t 0 = Inr \<lparr>shape = [28, 28, 1], data = map int [0..<784]\<rparr>"
    using t(4) by simp
  have "item t [0, 1, 2, 0] = Inr (drop 1 (rows ?df ! 0) ! (28 * 1 + 2))"
    using t(4) by simp
  then have c: "item t [0, 1, 2, 0] = Inr 30" by simp
  show ?thesis using h1 h2 t(1,2,3) g c by auto
qed


lemma read_csv_Cons:
  assumes "first \<noteq> []"
  shows "read_csv (first # rest) =
           (if list_ex (\<lambda>r. length first < length r) rest then Inl ParserError
            else Inr \<lparr>ncols = length first,
                      rows = map (pad (length first)) (first # filter (\<lambda>r. r \<noteq> []) rest)\<rparr>)"
proof -
  have "list_ex (\<lambda>r. length first < length r) (filter (\<lambda>r. r \<noteq> []) rest)
      = list_ex (\<lambda>r. length first < length r) rest"
    by (auto simp add: list_ex_iff)
  with assms show ?thesis by (simp add: read_csv_def)
qed

lemma reshape_features_width:
  "reshape_features \<lparr>ncols = k, rows = rs\<rparr> =
     (if rs = [] \<or> k - 1 = 784
      then Inr \<lparr>shape = [length rs, 28, 28, 1], data = concat (map (drop 1) rs)\<rparr>
      else Inl ValueError)"
  by (auto simp add: reshape_features_def reshape_def values_df_def loc_cols_def)

lemma prepare_Cons:
  assumes "first \<noteq> []"
  shows "prepare (first # rest) =
           (if list_ex (\<lambda>r. length first < length r) rest then Inl ParserError
            else if length first - 1 \<noteq> 784 then Inl ValueError
            else Inr (true_divide_nan
                        \<lparr>shape = [Suc (length (filter (\<lambda>r. r \<noteq> []) rest)), 28, 28, 1],
                         data = concat (map (drop 1) (map (pad (length first))
                                  (first # filter (\<lambda>r. r \<noteq> []) rest)))\<rparr> 255,
                      map (\<lambda>r. r ! 0) (map (pad (length first))
                                  (first # filter (\<lambda>r. r \<noteq> []) rest))))"
  using assms
  by (simp add: prepare_def read_csv_Cons reshape_features_width column_def
      del: list.map map_map)

text \<open>
  Claim C8, amended. Preparation fails, with nothing recovered, when the table is not
  785 columns wide or the parser refuses the file. The first line of the file fixes
  the width: if its pixel count is not 784 (and no later line is longer), the reshape
  raises ValueError and the preparation ends with that error; if a later line has
  more fields than the first, \<open>read_csv\<close> has already refused the file. A later line
  with fewer pixels than the first is not detected: it is filled up with missing
  values and the preparation gives one tensor per line.
\<close>

theorem prepare_fails_on_table_width:
  assumes "first \<noteq> []"
  shows "(list_ex (\<lambda>r. length first < length r) rest \<longrightarrow>
            prepare (first # rest) = Inl ParserError)
       \<and> (\<not> list_ex (\<lambda>r. length first < length r) rest \<and> length (drop 1 first) \<noteq> 784 \<longrightarrow>
            prepare (first # rest) = Inl ValueError)
       \<and> (\<not> list_ex (\<lambda>r. length first < length r) rest \<and> length (drop 1 first) = 784 \<longrightarrow>
            (\<exists>t labels. prepare (first # rest) = Inr (t, labels)
               \<and> shape t = [length (filter (\<lambda>r. r \<noteq> []) (first # rest)), 28, 28, 1]
               \<and> length labels = length (filter (\<lambda>r. r \<noteq> []) (first # rest))))"
  using assms by (simp add: prepare_Cons true_divide_nan_def del: list.map map_map)

theorem prepare_fails_on_table_width_witness:
  "[7, 0, 128, 255 :: int] \<noteq> []
   \<and> prepare [[7, 0, 128, 255], [1, 2]] = Inl ValueError
   \<and> prepare [[7, 0], [1, 2, 3]] = Inl ParserError"
proof -
  have h1: "[7, 0, 128, 255 :: int] \<noteq> []" and h2: "[7, 0 :: int] \<noteq> []" by simp_all
  show ?thesis
    using prepare_fails_on_table_width [OF h1, of "[[1, 2]]"]
      prepare_fails_on_table_width [OF h2, of "[[1, 2, 3]]"]
    by simp
qed

text \<open>
  Claim C8 as stated fails: a file whose second line carries two pixels instead of
  784 goes through. The reshape does not raise, and the tensor of that line holds
  missing values from its third cell on.
\<close>

theorem prepare_accepts_short_row:
  "[3, 1, 2] \<in> set short_row_file
   \<and> length (drop 1 [3, 1, 2 :: int]) \<noteq> 784
   \<and> \<not> isl (prepare short_row_file)
   \<and> shape (fst (projr (prepare short_row_file))) = [2, 28, 28, 1]
   \<and> length (data (fst (projr (prepare short_row_file)))) = 1568
   \<and> data (fst (projr (prepare short_row_file))) ! 786 = None"
proof -
  have ne: "7 # replicate 784 (0::int) \<noteq> []" by simp
  have run: "prepare short_row_file =
      Inr (true_divide_nan
             \<lparr>shape = [2, 28, 28, 1],
              data = map Some (replicate 784 0) @ [Some 1, Some 2] @ replicate 782 None\<rparr> 255,
           [Some 7, Some 3])"
    unfolding short_row_file_def
    by (simp add: prepare_Cons [OF ne] pad_def numeral_2_eq_2 [symmetric])
  show ?thesis
    unfolding run by (simp add: short_row_file_def true_divide_nan_def nth_append)
qed

text \<open>
  Claim C2. If every element of a pixel tensor is an integer between 0 and 255, then
  every element of the tensor divided by 255 lies between 0 and 1, and multiplying
  it by 255 gives the original integer back (exactly, in exact arithmetic). The
  shape and the number of elements stay the same.
\<close>

theorem divide_255_unit_interval:
  assumes "\<forall>v \<in> set (data a). 0 \<le> v \<and> v \<le> 255"
  shows "shape (true_divide a 255) = shape a
       \<and> length (data (true_divide a 255)) = length (data a)
       \<and> (\<forall>y \<in> set (data (true_divide a 255)). 0 \<le> y \<and> y \<le> 1)
       \<and> (\<forall>i < length (data a).
             data (true_divide a 255) ! i = real_of_int (data a ! i) / 255
           \<and> data (true_divide a 255) ! i * 255 = real_of_int (data a ! i))"
  using assms by (auto simp add: true_divide_def)

theorem divide_255_unit_interval_witness:
  "list_all (\<lambda>v. 0 \<le> v \<and> v \<le> 255) (data \<lparr>shape = [3], data = [0, 51, 255 :: int]\<rparr>)
   \<and> data (true_divide \<lparr>shape = [3], data = [0, 51, 255]\<rparr> 255) = [0, 1 / 5, 1]
   \<and> list_all (\<lambda>y. 0 \<le> y \<and> y \<le> 1)
        (data (true_divide \<lparr>shape = [3], data = [0, 51, 255]\<rparr> 255))
   \<and> data (true_divide \<lparr>shape = [3], data = [0, 51, 255]\<rparr> 255) ! 1 * 255 = 51"
proof -
  let ?a = "\<lparr>shape = [3], data = [0, 51, 255 :: int]\<rparr>"
  have h: "\<forall>v \<in> set (data ?a). 0 \<le> v \<and> v \<le> 255" by simp
  note fact = divide_255_unit_interval [OF h]
  have v: "data (true_divide ?a 255) = [0, 1 / 5, 1]" by (simp add: true_divide_def)
  have "data (true_divide ?a 255) ! 1 * 255 = real_of_int (data ?a ! 1)"
    using fact by simp
  then have rt: "data (true_divide ?a 255) ! 1 * 255 = 51" by simp
  have rng: "list_all (\<lambda>y. 0 \<le> y \<and> y \<le> 1) (data (true_divide ?a 255))"
    using fact unfolding list_all_iff by blast
  show ?thesis
    using h v rt rng by (simp add: list_all_iff)
qed

section \<open>The model: the claims\<close>

subsection \<open>The layers\<close>

lemma layers_build_model:
  "layers (build_model init) =
     [Conv2D 32 (3, 3) (Some [28, 28, 1]), MaxPooling2D (2, 2) 2, Flatten,
      Dense 64 Relu, Dropout (2 / 10), Dense 10 Softmax]"
  by (simp add: build_model_def Sequential_def add_def compile_def)

lemma optimizer_build_model:
  "optimizer (build_model init) = Some \<lparr>opt_name = ''adam'', iterations = 0, slots = (\<lambda>_. 0)\<rparr>"
  by (simp add: build_model_def Sequential_def add_def compile_def)

text \<open>
  Claim C3, amended. The model is a fixed sequence of exactly six layers, in this
  order: the feature extractor (\<open>Conv2D\<close>), the downsampler (\<open>MaxPooling2D\<close>), the
  flattener (\<open>Flatten\<close>), the hidden classifier (\<open>Dense\<close>, 64 units, relu), the
  regularizer (\<open>Dropout\<close>) and the output classifier (\<open>Dense\<close>, 10 units, softmax).
  Training does not change the sequence.
\<close>

theorem build_model_six_layers:
  "layers (build_model init) =
     [Conv2D 32 (3, 3) (Some [28, 28, 1]), MaxPooling2D (2, 2) 2, Flatten,
      Dense 64 Relu, Dropout (2 / 10), Dense 10 Softmax]
   \<and> length (layers (build_model init)) = 6
   \<and> layers (fit_result w n sl (build_model init)) = layers (build_model init)"
  by (simp add: layers_build_model fit_result_def)

theorem build_model_six_layers_witness:
  "length (layers (build_model zero_weights)) = 6
   \<and> layers (fit_result zero_weights 5625 no_slots (build_model zero_weights)) ! 4
       = Dropout (2 / 10)"
  using build_model_six_layers [of zero_weights zero_weights 5625 no_slots]
  by simp

text \<open>
  Claim C3 as stated asks for exactly five layers while naming six: the model that
  the notebook builds does not have five.
\<close>

theorem build_model_not_five_layers:
  "length (layers (build_model zero_weights)) \<noteq> 5"
  by (simp add: layers_build_model)

subsection \<open>Saving\<close>

text \<open>With \<open>overwrite\<close> off, a file that exists makes \<open>save\<close> ask first.\<close>

lemma save_asks_without_overwrite:
  "fs filepath = Some old \<Longrightarrow>
   save model filepath False include_optimizer answer fs =
     (True, if answer then fs(filepath \<mapsto>
        \<lparr>ck_layers = layers model, ck_weights = weights model,
         ck_optimizer = (if include_optimizer then optimizer model else None)\<rparr>) else fs)"
  by (simp add: save_def)

text \<open>
  Claim C10. The saving cell never asks and never leaves the old file: whatever the
  file system holds, also a file named \<open>mnist-model.h5\<close>, after the cell that path
  holds the checkpoint of the trained model, with its layers, its weights and the
  state of its optimizer.
\<close>

theorem save_cell_replaces_file:
  "save_cell (fit_result w n sl (build_model init)) answer fs =
     (False,
      fs(''mnist-model.h5'' \<mapsto>
           \<lparr>ck_layers = layers (build_model init), ck_weights = w,
            ck_optimizer = Some \<lparr>opt_name = ''adam'', iterations = n, slots = sl\<rparr>\<rparr>))"
  by (simp add: save_cell_def save_def fit_result_def optimizer_build_model)

theorem save_cell_replaces_file_witness:
  "[''mnist-model.h5'' \<mapsto> old_checkpoint] ''mnist-model.h5'' = Some old_checkpoint
   \<and> fst (save_cell (fit_result zero_weights 5625 no_slots (build_model zero_weights)) False
            [''mnist-model.h5'' \<mapsto> old_checkpoint]) = False
   \<and> map_option ck_optimizer
        (snd (save_cell (fit_result zero_weights 5625 no_slots (build_model zero_weights)) False
               [''mnist-model.h5'' \<mapsto> old_checkpoint]) ''mnist-model.h5'')
      = Some (Some \<lparr>opt_name = ''adam'', iterations = 5625, slots = no_slots\<rparr>)
   \<and> map_option ck_layers
        (snd (save_cell (fit_result zero_weights 5625 no_slots (build_model zero_weights)) False
               [''mnist-model.h5'' \<mapsto> old_checkpoint]) ''mnist-model.h5'')
      = Some (layers (build_model zero_weights))"
  using save_cell_replaces_file [of zero_weights 5625 no_slots zero_weights False
      "[''mnist-model.h5'' \<mapsto> old_checkpoint]"]
  by simp


subsection \<open>The downsampler\<close>

lemma max_list_four: "max_list [a, b, c, d] = Max {a, b, c, d}"
  by (simp add: max_list_def max.commute max.left_commute)

lemma half_dim: "2 \<le> h \<Longrightarrow> Suc ((h - 2) div 2) = h div 2"
  by presburger

text \<open>
  Claim C7, amended. On a grid of height \<open>h\<close> and width \<open>wd\<close> (each at least 2, so that there is
  a window) with \<open>c\<close> channels, the downsampler gives a grid of height \<open>h div 2\<close> and
  width \<open>wd div 2\<close> with the same channels. Its cell \<open>(i, j)\<close> in channel \<open>k\<close> is the
  largest of the four values of the window of rows \<open>2i, 2i+1\<close> and columns
  \<open>2j, 2j+1\<close> in that channel; the windows do not overlap. A grid of 26 by 26
  becomes one of 13 by 13. When a side is odd, its last row or column belongs to no
  window and the half is rounded down.
\<close>

theorem max_pooling_2x2:
  assumes "wf_array x" and "shape x = [h, wd, c]" and "2 \<le> h" and "2 \<le> wd"
  shows "\<exists>y. call (MaxPooling2D (2, 2) 2) w training keep x = Inr y
           \<and> shape y = [h div 2, wd div 2, c]
           \<and> (\<forall>i<h div 2. \<forall>j<wd div 2. \<forall>k<c.
                 item y [i, j, k] =
                   Inr (Max {elem x [2 * i, 2 * j, k], elem x [2 * i, 2 * j + 1, k],
                             elem x [2 * i + 1, 2 * j, k], elem x [2 * i + 1, 2 * j + 1, k]}))"
proof -
  define f where
    "f = (\<lambda>idx. max_list [elem x [idx ! 0 * 2 + a, idx ! 1 * 2 + b, idx ! 2].
                            a \<leftarrow> [0..<2], b \<leftarrow> [0..<2]])"
  define y where "y = fromfunction [h div 2, wd div 2, c] f"
  have two: "[0..<2] = [0, Suc 0]"
    by (simp add: numeral_2_eq_2)
  have run: "call (MaxPooling2D (2, 2) 2) w training keep x = Inr y"
    using assms(2,3,4) by (simp add: y_def f_def half_dim)
  have cell: "item y [i, j, k] =
       Inr (Max {elem x [2 * i, 2 * j, k], elem x [2 * i, 2 * j + 1, k],
                 elem x [2 * i + 1, 2 * j, k], elem x [2 * i + 1, 2 * j + 1, k]})"
    if "i < h div 2" "j < wd div 2" "k < c" for i j k
  proof -
    have "in_bounds [h div 2, wd div 2, c] [i, j, k]"
      using that by simp
    then have "item y [i, j, k] = Inr (f [i, j, k])"
      unfolding y_def by (rule item_fromfunction)
    also have "f [i, j, k] =
        max_list [elem x [2 * i, 2 * j, k], elem x [2 * i, 2 * j + 1, k],
                  elem x [2 * i + 1, 2 * j, k], elem x [2 * i + 1, 2 * j + 1, k]]"
      by (simp add: f_def two mult.commute)
    finally show ?thesis by (simp only: max_list_four)
  qed
  show ?thesis
    using run cell by (intro exI [of _ y]) (simp add: y_def shape_fromfunction)
qed


theorem max_pooling_2x2_witness:
  "wf_array \<lparr>shape = [2, 2, 1], data = [1, 5, 3, 2 :: real]\<rparr>
   \<and> (\<exists>y. call (MaxPooling2D (2, 2) 2) (zero_weights 1) False first_only
              \<lparr>shape = [2, 2, 1], data = [1, 5, 3, 2]\<rparr> = Inr y
          \<and> shape y = [1, 1, 1] \<and> item y [0, 0, 0] = Inr 5)
   \<and> wf_array (fromfunction [26, 26, 32] (\<lambda>idx. 0 :: real))
   \<and> (\<exists>y. call (MaxPooling2D (2, 2) 2) (zero_weights 1) False first_only
              (fromfunction [26, 26, 32] (\<lambda>idx. 0)) = Inr y
          \<and> shape y = [13, 13, 32])"
proof -
  let ?x = "\<lparr>shape = [2, 2, 1], data = [1, 5, 3, 2 :: real]\<rparr>"
  let ?g = "fromfunction [26, 26, 32] (\<lambda>idx. 0 :: real)"
  have w1: "wf_array ?x" by (simp add: wf_array_def)
  have s1: "shape ?x = [2, 2, 1]" by simp
  from max_pooling_2x2 [OF w1 s1, of "zero_weights 1" False first_only]
  obtain y where y: "call (MaxPooling2D (2, 2) 2) (zero_weights 1) False first_only ?x = Inr y"
    "shape y = [2 div 2, 2 div 2, 1]"
    "\<forall>i<2 div 2. \<forall>j<2 div 2. \<forall>k<1.
        item y [i, j, k] =
          Inr (Max {elem ?x [2 * i, 2 * j, k], elem ?x [2 * i, 2 * j + 1, k],
                    elem ?x [2 * i + 1, 2 * j, k], elem ?x [2 * i + 1, 2 * j + 1, k]})"
    by auto
  from y(3) have "item y [0, 0, 0] =
      Inr (Max {elem ?x [0, 0, 0], elem ?x [0, 1, 0], elem ?x [1, 0, 0], elem ?x [1, 1, 0]})"
    by simp
  then have cell: "item y [0, 0, 0] = Inr 5"
    by (simp add: elem_def)
  have small: "\<exists>y. call (MaxPooling2D (2, 2) 2) (zero_weights 1) False first_only ?x = Inr y
          \<and> shape y = [1, 1, 1] \<and> item y [0, 0, 0] = Inr 5"
    using y(1,2) cell by simp
  have w2: "wf_array ?g" by (rule wf_fromfunction)
  have s2: "shape ?g = [26, 26, 32]" by (rule shape_fromfunction)
  from max_pooling_2x2 [OF w2 s2, of "zero_weights 1" False first_only]
  have big: "\<exists>y. call (MaxPooling2D (2, 2) 2) (zero_weights 1) False first_only ?g = Inr y
          \<and> shape y = [13, 13, 32]"
    by auto
  show ?thesis using w1 small w2 big by blast
qed

lemma upt_2: "[0..<2] = [0, Suc 0]"
  by (simp add: numeral_2_eq_2)

text \<open>
  Claim C7 as stated fails on some grids. A grid of 1 by 1 holds no window and is
  refused. A grid of 3 by 3 gives a grid of 1 by 1, which is not half of 3; its one
  cell is 5, the largest value of the window of rows 0, 1 and columns 0, 1, while
  the largest value of the grid, 9, lies in no window.
\<close>

theorem max_pooling_not_half:
  "call (MaxPooling2D (2, 2) 2) (zero_weights 1) False first_only grid_1x1 = Inl ValueError
   \<and> map_sum id shape (call (MaxPooling2D (2, 2) 2) (zero_weights 1) False first_only grid_3x3)
       = Inr [1, 1, 1]
   \<and> map_sum id data (call (MaxPooling2D (2, 2) 2) (zero_weights 1) False first_only grid_3x3)
       = Inr [5]
   \<and> 2 * 1 \<noteq> (3 :: nat)"
  by (simp add: grid_1x1_def grid_3x3_def fromfunction_def elem_def max_list_def upt_2)

subsection \<open>Shapes through the layers\<close>

lemma call_Conv2D_shape:
  assumes "shape x = [h, wd, c]" and "kh \<le> h" and "kw \<le> wd"
  shows "\<exists>y. call (Conv2D filters (kh, kw) spec) w training keep x = Inr y
           \<and> shape y = [h - kh + 1, wd - kw + 1, filters]"
  using assms by (simp add: shape_fromfunction)

lemma call_MaxPooling2D_shape:
  assumes "shape x = [h, wd, c]" and "2 \<le> h" and "2 \<le> wd"
  shows "\<exists>y. call (MaxPooling2D (2, 2) 2) w training keep x = Inr y
           \<and> shape y = [h div 2, wd div 2, c]"
  using assms by (simp add: shape_fromfunction half_dim)

lemma call_Flatten_shape:
  "\<exists>y. call Flatten w training keep x = Inr y \<and> shape y = [prod_list (shape x)]"
  by simp

lemma shape_activate: "shape (activate act z) = shape z"
  by (cases act) (simp_all add: softmax_def shape_fromfunction)

lemma call_Dense_shape:
  assumes "shape x = [n]"
  shows "\<exists>y. call (Dense units act) w training keep x = Inr y \<and> shape y = [units]"
  using assms by (simp add: shape_activate shape_fromfunction)

lemma call_Dense_Softmax:
  assumes "shape x = [n]"
  shows "\<exists>z. call (Dense units Softmax) w training keep x = Inr (softmax z) \<and> shape z = [units]"
proof -
  define z where
    "z = fromfunction (butlast (shape x) @ [units])
           (\<lambda>idx. sum_list [elem x (butlast idx @ [k]) * kernel w [k, last idx].
                              k \<leftarrow> [0..<last (shape x)]]
                   + bias w (last idx))"
  have "call (Dense units Softmax) w training keep x = Inr (softmax z)"
    using assms by (simp add: z_def)
  moreover have "shape z = [units]"
    using assms by (simp add: z_def shape_fromfunction)
  ultimately show ?thesis by blast
qed

lemma call_Dropout_inference: "call (Dropout rate) w False keep x = Inr x"
  by simp

lemma forward_step:
  "call l (ws k) training keep x = Inr y \<Longrightarrow>
   forward (l # ls) ws k training keep x = forward ls ws (Suc k) training keep y"
  by simp

lemma forward_mnist:
  assumes "shape x = [28, 28, 1]"
  shows "\<exists>z. forward (layers (build_model init)) ws 0 False keep x = Inr (softmax z)
           \<and> shape z = [10]"
proof -
  let ?k1 = "Suc 0"
  let ?k2 = "Suc ?k1"
  let ?k3 = "Suc ?k2"
  let ?k4 = "Suc ?k3"
  let ?k5 = "Suc ?k4"
  obtain y1 where y1: "call (Conv2D 32 (3, 3) (Some [28, 28, 1])) (ws 0) False keep x = Inr y1"
      "shape y1 = [26, 26, 32]"
    using call_Conv2D_shape [OF assms, of 3 3] by auto
  obtain y2 where y2: "call (MaxPooling2D (2, 2) 2) (ws ?k1) False keep y1 = Inr y2"
      "shape y2 = [13, 13, 32]"
    using call_MaxPooling2D_shape [OF y1(2), of "ws ?k1"] by auto
  obtain y3 where y3: "call Flatten (ws ?k2) False keep y2 = Inr y3" "shape y3 = [5408]"
    using call_Flatten_shape [of "ws ?k2" False keep y2] y2(2) by auto
  obtain y4 where y4: "call (Dense 64 Relu) (ws ?k3) False keep y3 = Inr y4" "shape y4 = [64]"
    using call_Dense_shape [OF y3(2)] by blast
  have y5: "call (Dropout (2 / 10)) (ws ?k4) False keep y4 = Inr y4"
    by (rule call_Dropout_inference)
  obtain z where z: "call (Dense 10 Softmax) (ws ?k5) False keep y4 = Inr (softmax z)"
      "shape z = [10]"
    using call_Dense_Softmax [OF y4(2)] by blast
  have "forward (layers (build_model init)) ws 0 False keep x = Inr (softmax z)"
    unfolding layers_build_model
    by (simp only: forward_step [where ws = ws and k = 0, OF y1(1)]
        forward_step [where ws = ws and k = ?k1, OF y2(1)]
        forward_step [where ws = ws and k = ?k2, OF y3(1)]
        forward_step [where ws = ws and k = ?k3, OF y4(1)]
        forward_step [where ws = ws and k = ?k4, OF y5]
        forward_step [where ws = ws and k = ?k5, OF z(1)] forward.simps(1))
  with z(2) show ?thesis by blast
qed


subsection \<open>Prediction\<close>

lemma sum_list_exp_pos: "xs \<noteq> [] \<Longrightarrow> 0 < sum_list (map (\<lambda>k. exp (g k :: real)) xs)"
proof (induction xs)
  case Nil
  then show ?case by simp
next
  case (Cons a xs)
  have "0 \<le> sum_list (map (\<lambda>k. exp (g k)) xs)"
    by (rule sum_list_nonneg) auto
  moreover have "0 < exp (g a)" by simp
  ultimately have "0 < exp (g a) + sum_list (map (\<lambda>k. exp (g k)) xs)"
    by (rule add_pos_nonneg [rotated])
  then show ?case by simp
qed

lemma sum_list_divide_const:
  "sum_list (map (\<lambda>k. f k / (c::real)) xs) = sum_list (map f xs) / c"
  by (induction xs) (simp_all add: add_divide_distrib)

lemma data_softmax_vector:
  assumes "shape z = [n]"
  shows "data (softmax z) =
           map (\<lambda>k. exp (elem z [k]) / sum_list (map (\<lambda>j. exp (elem z [j])) [0..<n])) [0..<n]"
  using assms by (simp add: softmax_def fromfunction_def)

lemma softmax_vector:
  assumes "shape z = [n]" and "0 < n"
  shows "length (data (softmax z)) = n" and "sum_list (data (softmax z)) = 1"
    and "\<forall>v \<in> set (data (softmax z)). 0 < v"
proof -
  let ?S = "sum_list (map (\<lambda>j. exp (elem z [j])) [0..<n])"
  have pos: "0 < ?S"
    using assms(2) by (intro sum_list_exp_pos) simp
  show "length (data (softmax z)) = n"
    by (simp add: data_softmax_vector [OF assms(1)])
  show "sum_list (data (softmax z)) = 1"
    using pos by (simp add: data_softmax_vector [OF assms(1)] sum_list_divide_const)
  show "\<forall>v \<in> set (data (softmax z)). 0 < v"
    using pos by (auto simp add: data_softmax_vector [OF assms(1)])
qed

lemma input_spec_build_model: "input_spec (layers (build_model init)) = Some [28, 28, 1]"
  by (simp add: layers_build_model input_spec_def)

text \<open>
  Claim C5. For a batch that holds exactly one sample of shape \<open>28 \<times> 28 \<times> 1\<close>,
  prediction succeeds and returns exactly one sequence of class scores: the result
  has shape \<open>[1, 10]\<close>, so ten scores, each positive, and they sum to 1 (exactly, over
  the reals). This holds for all weights, before and after training.
\<close>

theorem predict_single_sample:
  assumes "wf_array x" and "shape x = [1, 28, 28, 1]"
  shows "\<exists>y. predict (fit_result w n sl (build_model init)) keep x = Inr y
           \<and> shape y = [1, 10]
           \<and> length (data y) = 10
           \<and> sum_list (data y) = 1
           \<and> (\<forall>v \<in> set (data y). 0 < v)"
proof -
  let ?m = "fit_result w n sl (build_model init)"
  have ls: "layers ?m = layers (build_model init)" and ws: "weights ?m = w"
    by (simp_all add: fit_result_def)
  define x0 where "x0 = \<lparr>shape = [28, 28, 1], data = take 784 (data x)\<rparr>"
  have get: "getitem x 0 = Inr x0"
    using assms(2) by (simp add: getitem_def x0_def)
  have "shape x0 = [28, 28, 1]" by (simp add: x0_def)
  from forward_mnist [OF this, of init w keep]
  obtain z where z: "forward (layers (build_model init)) w 0 False keep x0 = Inr (softmax z)"
      "shape z = [10]"
    by blast
  have one: "[0..<1] = [0]" by simp
  have run: "predict ?m keep x = Inr (stack [softmax z])"
    using assms(2) by (simp add: predict_def ls ws input_spec_build_model get z(1) one)
  have sh: "shape (stack [softmax z]) = [1, 10]"
    using z(2) by (simp add: stack_def softmax_def shape_fromfunction)
  have dt: "data (stack [softmax z]) = data (softmax z)"
    by (simp add: stack_def)
  show ?thesis
    using run sh dt softmax_vector [OF z(2)] by (intro exI [of _ "stack [softmax z]"]) simp
qed

theorem predict_single_sample_witness:
  "wf_array blank_batch \<and> shape blank_batch = [1, 28, 28, 1]
   \<and> (\<exists>y. predict (fit_result zero_weights 5625 no_slots (build_model zero_weights))
              first_only blank_batch = Inr y
          \<and> shape y = [1, 10] \<and> length (data y) = 10 \<and> sum_list (data y) = 1)"
proof -
  have h1: "wf_array blank_batch" by (simp add: wf_array_def blank_batch_def)
  have h2: "shape blank_batch = [1, 28, 28, 1]" by (simp add: blank_batch_def)
  show ?thesis
    using h1 h2
      predict_single_sample [OF h1 h2, of zero_weights 5625 no_slots zero_weights first_only]
    by blast
qed

subsection \<open>The regularizer\<close>

lemma call_inference_ignores_keep:
  "call l w False keep x = call l w False keep' x"
  by (cases l) (auto split: prod.splits)

lemma forward_inference_ignores_keep:
  "forward ls ws k False keep x = forward ls ws k False keep' x"
proof (induction ls arbitrary: k x)
  case Nil
  show ?case by simp
next
  case (Cons l ls)
  show ?case
    by (simp add: call_inference_ignores_keep [of l "ws k" keep x keep'] Cons.IH
        split: sum.splits)
qed

lemma predict_ignores_keep: "predict model keep x = predict model keep' x"
proof -
  have "forward (layers model) (weights model) 0 False keep
      = forward (layers model) (weights model) 0 False keep'"
    by (rule ext) (rule forward_inference_ignores_keep)
  then show ?thesis by (simp only: predict_def)
qed

text \<open>
  Claim C9. Outside training the dropout layer returns its input unchanged. In a
  training pass it sets to zero the units that the random draw does not keep, and
  scales the others by \<open>1 / (1 - 0.2)\<close>. So the random draw plays no role in
  inference: two runs of the layers, or of \<open>predict\<close>, on the same input give the
  same result whatever the draws are. That each unit is dropped with probability 0.2
  is a fact about the random source, which is taken as given.
\<close>

theorem dropout_only_in_training:
  "call (Dropout (2 / 10)) w False keep x = Inr x
   \<and> call (Dropout (2 / 10)) w True keep x =
       Inr \<lparr>shape = shape x,
            data = map (\<lambda>(k, v). if keep k then v / (1 - 2 / 10) else 0)
                     (enumerate 0 (data x))\<rparr>
   \<and> forward (layers (build_model init)) ws 0 False keep x
       = forward (layers (build_model init)) ws 0 False keep' x
   \<and> predict (fit_result ws n sl (build_model init)) keep batch
       = predict (fit_result ws n sl (build_model init)) keep' batch"
proof (intro conjI)
  show "call (Dropout (2 / 10)) w False keep x = Inr x"
    by (rule call_Dropout_inference)
  show "call (Dropout (2 / 10)) w True keep x =
       Inr \<lparr>shape = shape x,
            data = map (\<lambda>(k, v). if keep k then v / (1 - 2 / 10) else 0)
                     (enumerate 0 (data x))\<rparr>"
    by (simp only: call.simps if_True)
  show "forward (layers (build_model init)) ws 0 False keep x
       = forward (layers (build_model init)) ws 0 False keep' x"
    by (rule forward_inference_ignores_keep)
  show "predict (fit_result ws n sl (build_model init)) keep batch
       = predict (fit_result ws n sl (build_model init)) keep' batch"
    by (rule predict_ignores_keep)
qed

theorem dropout_only_in_training_witness:
  "call (Dropout (2 / 10)) (zero_weights 4) False first_only \<lparr>shape = [2], data = [1, 2]\<rparr>
     = Inr \<lparr>shape = [2], data = [1, 2]\<rparr>
   \<and> call (Dropout (2 / 10)) (zero_weights 4) True first_only \<lparr>shape = [2], data = [1, 2]\<rparr>
     = Inr \<lparr>shape = [2], data = [5 / 4, 0]\<rparr>
   \<and> predict (fit_result zero_weights 5625 no_slots (build_model zero_weights))
        first_only blank_batch
     = predict (fit_result zero_weights 5625 no_slots (build_model zero_weights))
        (\<lambda>k. \<not> first_only k) blank_batch"
  using dropout_only_in_training [of "zero_weights 4" first_only
      "\<lparr>shape = [2], data = [1, 2]\<rparr>" zero_weights zero_weights "\<lambda>k. \<not> first_only k"
      5625 no_slots blank_batch]
  by (simp add: first_only_def)

end
